theory Spec2Isabelle
  imports Main
begin

section \<open>The process environment\<close>

text \<open>
  The three fixture scripts (\<^verbatim>\<open>deploy.py\<close>, \<^verbatim>\<open>build_project.py\<close>, \<^verbatim>\<open>run_tests.py\<close>)
  read \<^verbatim>\<open>sys.argv\<close> and write text. A run is modelled as a function from the argument
  vector and the environment before the run to the environment after it and the exit
  status of the process. The environment holds what has been written to the two standard
  streams and the files of the filesystem (path to contents).

  Strings are \<^typ>\<open>string\<close>: a character stands for a code point below 256. The streams
  accept every string (no encoding error, no closed pipe).
\<close>

record world =
  stdout :: string
  stderr :: string
  files :: "string \<rightharpoonup> string"

definition newline :: char where
  "newline = CHR 0x0A"

text \<open>\<^verbatim>\<open>print(s)\<close>: the text and a newline, appended to standard output.\<close>

definition print :: "string \<Rightarrow> world \<Rightarrow> world" where
  "print s w = w\<lparr>stdout := stdout w @ s @ [newline]\<rparr>"

section \<open>deploy.py\<close>

text \<open>
  \<^verbatim>\<open>env = sys.argv[1] if len(sys.argv) > 1 else "staging"\<close>
  \<^verbatim>\<open>print(f"Deploying to {env}")\<close>
\<close>

definition deploy :: "string list \<Rightarrow> world \<Rightarrow> world \<times> int" where
  "deploy sys_argv w =
     (let env = (if length sys_argv > 1 then sys_argv ! 1 else ''staging'')
      in (print (''Deploying to '' @ env) w, 0))"

section \<open>build\_project.py\<close>

text \<open>
  \<^verbatim>\<open>config = sys.argv[1] if len(sys.argv) > 1 else "debug"\<close>
  \<^verbatim>\<open>output = sys.argv[2] if len(sys.argv) > 2 else "dist"\<close>
  \<^verbatim>\<open>print(f"Building with config={config}, output={output}")\<close>
\<close>

definition build_project :: "string list \<Rightarrow> world \<Rightarrow> world \<times> int" where
  "build_project sys_argv w =
     (let config = (if length sys_argv > 1 then sys_argv ! 1 else ''debug'');
          output = (if length sys_argv > 2 then sys_argv ! 2 else ''dist'')
      in (print (''Building with config='' @ config @ '', output='' @ output) w, 0))"

section \<open>run\_tests.py: the argument parser\<close>

text \<open>
  \<^verbatim>\<open>run_tests.py\<close> hands \<^verbatim>\<open>sys.argv[1:]\<close> to an \<^verbatim>\<open>argparse.ArgumentParser\<close> holding
  three actions: the help action the parser adds by itself (\<^verbatim>\<open>-h\<close>, \<^verbatim>\<open>--help\<close>, no
  argument) and the two store actions of the script (\<^verbatim>\<open>--verbose\<close>, \<^verbatim>\<open>--filter\<close>, one
  argument each, no type, no default). The parser is the one of CPython 3.11
  (\<^verbatim>\<open>Lib/argparse.py\<close>), specialised to these three actions: prefix character \<^verbatim>\<open>-\<close>,
  abbreviations allowed, no positional argument, no mutually exclusive group, no
  arguments read from files.
\<close>

datatype action = HelpAction | StoreVerbose | StoreFilter

text \<open>\<^verbatim>\<open>parser._option_string_actions\<close>, in the order the options were added.\<close>

definition option_string_actions :: "(string \<times> action) list" where
  "option_string_actions =
     [(''-h'', HelpAction), (''--help'', HelpAction),
      (''--verbose'', StoreVerbose), (''--filter'', StoreFilter)]"

fun option_strings :: "action \<Rightarrow> string list" where
  "option_strings HelpAction = [''-h'', ''--help'']"
| "option_strings StoreVerbose = [''--verbose'']"
| "option_strings StoreFilter = [''--filter'']"

text \<open>
  What the parser can report. Each of them ends the process through \<^verbatim>\<open>parser.error\<close>.
\<close>

datatype argparse_error =
    AmbiguousOption string "string list"
  | UnexpectedOptionString string
  | ExpectedOneArgument action
  | IgnoredExplicitArgument action string
  | UnrecognizedArguments "string list"

text \<open>
  \<^verbatim>\<open>SystemExit\<close>: the help action prints the help text and exits with status 0;
  \<^verbatim>\<open>parser.error\<close> prints the usage and the message to standard error and exits with
  status 2.
\<close>

datatype system_exit = HelpExit | ErrorExit argparse_error

text \<open>
  The value of a namespace attribute: \<^verbatim>\<open>None\<close>, one string, or a list of strings (what
  \<^verbatim>\<open>_get_values\<close> gives when an action does not receive exactly one string).
\<close>

datatype py_value = PyNone | PyStr string | PyList "string list"

record namespace =
  verbose :: py_value
  filter_attr :: py_value

text \<open>An option tuple of \<^verbatim>\<open>_parse_optional\<close>: action, option string, separator, explicit argument.\<close>

type_synonym option_tuple = "action option \<times> string \<times> string option \<times> string option"

text \<open>An action with the strings it receives and the option string that selected it.\<close>

type_synonym action_tuple = "action \<times> string list \<times> string"

text \<open>
  One part of \<^verbatim>\<open>arg_strings_pattern\<close>: \<^verbatim>\<open>A\<close> for an argument, \<^verbatim>\<open>O\<close> for an option
  (with its tuple, which the source keeps in \<^verbatim>\<open>option_string_indices\<close>), \<^verbatim>\<open>-\<close> for
  the string \<^verbatim>\<open>--\<close>.
\<close>

datatype pattern_part = PatA | PatO option_tuple | PatDash

subsection \<open>String helpers\<close>

text \<open>\<^verbatim>\<open>s.startswith(p)\<close>\<close>

definition startswith :: "string \<Rightarrow> string \<Rightarrow> bool" where
  "startswith s p = (take (length p) s = p)"

text \<open>\<^verbatim>\<open>s.partition('=')\<close>: the text before the first \<^verbatim>\<open>=\<close>, the separator, the text after it.\<close>

definition str_partition :: "string \<Rightarrow> string \<times> string \<times> string" where
  "str_partition s =
     (let a = takeWhile (\<lambda>c. c \<noteq> CHR ''='') s;
          b = dropWhile (\<lambda>c. c \<noteq> CHR ''='') s
      in if b = [] then (s, [], []) else (a, ''='', tl b))"

text \<open>\<^verbatim>\<open>sep.join(xs)\<close>\<close>

fun join :: "string \<Rightarrow> string list \<Rightarrow> string" where
  "join sep [] = []"
| "join sep [x] = x"
| "join sep (x # y # ys) = x @ sep @ join sep (y # ys)"

definition is_digit :: "char \<Rightarrow> bool" where
  "is_digit c = (c \<in> set ''0123456789'')"

text \<open>
  \<^verbatim>\<open>parser._negative_number_matcher\<close>, the regular expression
  \<^verbatim>\<open>^-\d+$|^-\d*\.\d+$\<close>. A \<^verbatim>\<open>$\<close> also matches before a newline that ends the string.
\<close>

definition negative_number_body :: "string \<Rightarrow> bool" where
  "negative_number_body s =
     (case s of
        [] \<Rightarrow> False
      | c # r \<Rightarrow>
          c = CHR ''-'' \<and>
          ((r \<noteq> [] \<and> list_all is_digit r) \<or>
           (case dropWhile is_digit r of
              [] \<Rightarrow> False
            | d # f \<Rightarrow> d = CHR ''.'' \<and> f \<noteq> [] \<and> list_all is_digit f)))"

definition negative_number_matcher :: "string \<Rightarrow> bool" where
  "negative_number_matcher s =
     (negative_number_body s \<or>
      (s \<noteq> [] \<and> last s = newline \<and> negative_number_body (butlast s)))"

subsection \<open>Classifying one argument string\<close>

text \<open>
  \<^verbatim>\<open>_get_option_tuples\<close>: the options an abbreviated option string can stand for. It is
  called on strings of two characters at least that start with \<^verbatim>\<open>-\<close>.
\<close>

fun get_option_tuples :: "string \<Rightarrow> argparse_error + option_tuple list" where
  "get_option_tuples (c0 # c1 # cs) =
     (let option_string = c0 # c1 # cs in
      if c0 = CHR ''-'' \<and> c1 = CHR ''-'' then
        (case str_partition option_string of
           (option_prefix, sep, explicit_arg) \<Rightarrow>
             Inr (map (\<lambda>(os, a).
                         (Some a, os,
                          if sep = [] then None else Some sep,
                          if sep = [] then None else Some explicit_arg))
                    (filter (\<lambda>(os, a). startswith os option_prefix) option_string_actions)))
      else if c0 = CHR ''-'' \<and> c1 \<noteq> CHR ''-'' then
        Inr (concat (map (\<lambda>(os, a).
                            if os = take 2 option_string
                            then [(Some a, os, Some [], Some (drop 2 option_string))]
                            else if startswith os option_string
                            then [(Some a, os, None, None)]
                            else [])
                       option_string_actions))
      else Inl (UnexpectedOptionString option_string))"
| "get_option_tuples s = Inl (UnexpectedOptionString s)"

text \<open>
  \<^verbatim>\<open>_parse_optional\<close>: \<open>Inr None\<close> when the string is an argument, \<open>Inr (Some t)\<close> when
  it is an option (with no action when the parser has no such option), an error when
  it abbreviates more than one option.
\<close>

definition parse_optional :: "string \<Rightarrow> argparse_error + option_tuple option" where
  "parse_optional arg_string =
     (if arg_string = [] then Inr None
      else if hd arg_string \<noteq> CHR ''-'' then Inr None
      else case map_of option_string_actions arg_string of
        Some a \<Rightarrow> Inr (Some (Some a, arg_string, None, None))
      | None \<Rightarrow>
          if length arg_string = 1 then Inr None
          else case str_partition arg_string of
            (option_string, sep, explicit_arg) \<Rightarrow>
              (case (if sep \<noteq> [] then map_of option_string_actions option_string else None) of
                 Some a \<Rightarrow> Inr (Some (Some a, option_string, Some sep, Some explicit_arg))
               | None \<Rightarrow>
                   (case get_option_tuples arg_string of
                      Inl e \<Rightarrow> Inl e
                    | Inr option_tuples \<Rightarrow>
                        if length option_tuples > 1
                        then Inl (AmbiguousOption arg_string (map (\<lambda>t. fst (snd t)) option_tuples))
                        else if length option_tuples = 1 then Inr (Some (hd option_tuples))
                        else if negative_number_matcher arg_string then Inr None
                        else if CHR '' '' \<in> set arg_string then Inr None
                        else Inr (Some (None, arg_string, None, None)))))"

text \<open>
  The first loop of \<^verbatim>\<open>_parse_known_args\<close>: the pattern of the argument strings. After
  a \<^verbatim>\<open>--\<close> every string is an argument.
\<close>

fun arg_string_pattern_parts :: "string list \<Rightarrow> argparse_error + pattern_part list" where
  "arg_string_pattern_parts [] = Inr []"
| "arg_string_pattern_parts (arg_string # rest) =
     (if arg_string = ''--'' then Inr (PatDash # map (\<lambda>_. PatA) rest)
      else case parse_optional arg_string of
        Inl e \<Rightarrow> Inl e
      | Inr option_tuple \<Rightarrow>
          (case arg_string_pattern_parts rest of
             Inl e \<Rightarrow> Inl e
           | Inr parts \<Rightarrow>
               Inr ((case option_tuple of None \<Rightarrow> PatA | Some t \<Rightarrow> PatO t) # parts)))"

subsection \<open>Consuming an option and its arguments\<close>

text \<open>
  \<^verbatim>\<open>_match_argument\<close>: how many of the following strings the action takes. The help
  action has \<^verbatim>\<open>nargs=0\<close> (pattern \<^verbatim>\<open>()\<close>); a store action has \<^verbatim>\<open>nargs=None\<close>
  (pattern \<^verbatim>\<open>(A)\<close>: the next string must be an argument).
\<close>

fun match_argument :: "action \<Rightarrow> pattern_part list \<Rightarrow> argparse_error + nat" where
  "match_argument HelpAction pats = Inr 0"
| "match_argument action (PatA # pats) = Inr 1"
| "match_argument action pats = Inl (ExpectedOneArgument action)"

text \<open>
  The \<^verbatim>\<open>while True\<close> loop of \<^verbatim>\<open>consume_optional\<close>, for an option tuple that has an
  action. \<open>following\<close> holds the argument strings after the option with their pattern
  parts. The result is the action tuples, the strings added to \<^verbatim>\<open>extras\<close>, and the
  number of following strings taken. Option strings have two characters at least.
\<close>

function consume_optional_loop ::
  "action \<Rightarrow> string \<Rightarrow> string option \<Rightarrow> string option \<Rightarrow> (string \<times> pattern_part) list \<Rightarrow>
   action_tuple list \<Rightarrow> argparse_error + (action_tuple list \<times> string list \<times> nat)" where
  "consume_optional_loop action option_string sep None following action_tuples =
     (case match_argument action (map snd following) of
        Inl e \<Rightarrow> Inl e
      | Inr arg_count \<Rightarrow>
          Inr (action_tuples @ [(action, map fst (take arg_count following), option_string)],
               [], arg_count))"
| "consume_optional_loop action option_string sep (Some explicit_arg) following action_tuples =
     (case match_argument action [PatA] of
        Inl e \<Rightarrow> Inl e
      | Inr arg_count \<Rightarrow>
          if arg_count = 0 \<and> option_string ! 1 \<noteq> CHR ''-'' \<and> explicit_arg \<noteq> [] then
            if (sep \<noteq> None \<and> sep \<noteq> Some []) \<or> hd explicit_arg = CHR ''-''
            then Inl (IgnoredExplicitArgument action explicit_arg)
            else
              (case map_of option_string_actions [hd option_string, hd explicit_arg] of
                 Some next_action \<Rightarrow>
                   if tl explicit_arg = [] then
                     consume_optional_loop next_action [hd option_string, hd explicit_arg]
                       None None following (action_tuples @ [(action, [], option_string)])
                   else if hd (tl explicit_arg) = CHR ''='' then
                     consume_optional_loop next_action [hd option_string, hd explicit_arg]
                       (Some ''='') (Some (tl (tl explicit_arg))) following
                       (action_tuples @ [(action, [], option_string)])
                   else
                     consume_optional_loop next_action [hd option_string, hd explicit_arg]
                       (Some []) (Some (tl explicit_arg)) following
                       (action_tuples @ [(action, [], option_string)])
               | None \<Rightarrow>
                   Inr (action_tuples @ [(action, [], option_string)],
                        [hd option_string # explicit_arg], 0))
          else if arg_count = 1 then
            Inr (action_tuples @ [(action, [explicit_arg], option_string)], [], 0)
          else Inl (IgnoredExplicitArgument action explicit_arg))"
  by pat_completeness auto
termination
  by (relation "measure (\<lambda>(a, os, sep, e, f, ts). case e of None \<Rightarrow> 0 | Some s \<Rightarrow> Suc (length s))")
     (auto simp: neq_Nil_conv)

text \<open>
  \<^verbatim>\<open>_get_values\<close> for these actions (no type conversion, no choices): exactly one
  string gives that string, anything else the list.
\<close>

fun get_values :: "action \<Rightarrow> string list \<Rightarrow> py_value" where
  "get_values HelpAction arg_strings = PyList arg_strings"
| "get_values action [arg_string] = PyStr arg_string"
| "get_values action arg_strings = PyList arg_strings"

text \<open>
  \<^verbatim>\<open>take_action\<close>: the help action prints the help and exits; a store action sets its
  attribute of the namespace.
\<close>

fun take_action :: "action_tuple \<Rightarrow> namespace \<Rightarrow> system_exit + namespace" where
  "take_action (HelpAction, argument_strings, option_string) ns = Inl HelpExit"
| "take_action (StoreVerbose, argument_strings, option_string) ns =
     Inr (ns\<lparr>verbose := get_values StoreVerbose argument_strings\<rparr>)"
| "take_action (StoreFilter, argument_strings, option_string) ns =
     Inr (ns\<lparr>filter_attr := get_values StoreFilter argument_strings\<rparr>)"

fun take_actions :: "action_tuple list \<Rightarrow> namespace \<Rightarrow> system_exit + namespace" where
  "take_actions [] ns = Inr ns"
| "take_actions (t # ts) ns =
     (case take_action t ns of Inl x \<Rightarrow> Inl x | Inr ns' \<Rightarrow> take_actions ts ns')"

text \<open>
  The main loop of \<^verbatim>\<open>_parse_known_args\<close>. The parser has no positional argument, so
  every string that is not an option and is not taken by an option goes to \<^verbatim>\<open>extras\<close>,
  and so does an option the parser does not know.
\<close>

function consume ::
  "(string \<times> pattern_part) list \<Rightarrow> namespace \<Rightarrow> string list \<Rightarrow>
   system_exit + (namespace \<times> string list)" where
  "consume [] ns extras = Inr (ns, extras)"
| "consume ((s, PatA) # rest) ns extras = consume rest ns (extras @ [s])"
| "consume ((s, PatDash) # rest) ns extras = consume rest ns (extras @ [s])"
| "consume ((s, PatO (None, option_string, sep, explicit_arg)) # rest) ns extras =
     consume rest ns (extras @ [s])"
| "consume ((s, PatO (Some action, option_string, sep, explicit_arg)) # rest) ns extras =
     (case consume_optional_loop action option_string sep explicit_arg rest [] of
        Inl e \<Rightarrow> Inl (ErrorExit e)
      | Inr (action_tuples, new_extras, arg_count) \<Rightarrow>
          (case take_actions action_tuples ns of
             Inl x \<Rightarrow> Inl x
           | Inr ns' \<Rightarrow> consume (drop arg_count rest) ns' (extras @ new_extras)))"
  by pat_completeness auto
termination
  by (relation "measure (\<lambda>(xs, ns, extras). length xs)") auto

definition parse_known_args :: "string list \<Rightarrow> system_exit + (namespace \<times> string list)" where
  "parse_known_args args =
     (case arg_string_pattern_parts args of
        Inl e \<Rightarrow> Inl (ErrorExit e)
      | Inr parts \<Rightarrow> consume (zip args parts) \<lparr>verbose = PyNone, filter_attr = PyNone\<rparr> [])"

text \<open>\<^verbatim>\<open>parse_args\<close>: strings left over are an error.\<close>

definition parse_args :: "string list \<Rightarrow> system_exit + namespace" where
  "parse_args args =
     (case parse_known_args args of
        Inl x \<Rightarrow> Inl x
      | Inr (ns, argv) \<Rightarrow>
          if argv \<noteq> [] then Inl (ErrorExit (UnrecognizedArguments argv)) else Inr ns)"

subsection \<open>Text the parser and the script write\<close>

definition hex_digit :: "nat \<Rightarrow> char" where
  "hex_digit n = ''0123456789abcdef'' ! n"

text \<open>\<^verbatim>\<open>str.isprintable\<close> on one code point below 256.\<close>

definition is_printable :: "char \<Rightarrow> bool" where
  "is_printable c =
     (let n = (of_char c :: nat) in (32 \<le> n \<and> n < 127) \<or> (161 \<le> n \<and> n \<noteq> 173))"

text \<open>
  \<^verbatim>\<open>repr\<close> of a string: single quotes, or double quotes when the string holds a
  single quote and no double quote; the quote, the backslash and the characters that do
  not print are escaped.
\<close>

definition repr_char :: "char \<Rightarrow> char \<Rightarrow> string" where
  "repr_char quote c =
     (if c = quote \<or> c = CHR 0x5C then [CHR 0x5C, c]
      else if c = CHR 0x09 then [CHR 0x5C, CHR ''t'']
      else if c = newline then [CHR 0x5C, CHR ''n'']
      else if c = CHR 0x0D then [CHR 0x5C, CHR ''r'']
      else if is_printable c then [c]
      else [CHR 0x5C, CHR ''x'',
            hex_digit ((of_char c :: nat) div 16), hex_digit ((of_char c :: nat) mod 16)])"

definition py_repr :: "string \<Rightarrow> string" where
  "py_repr s =
     (let quote = (if CHR 0x27 \<in> set s \<and> CHR 0x22 \<notin> set s then CHR 0x22 else CHR 0x27)
      in [quote] @ concat (map (repr_char quote) s) @ [quote])"

text \<open>What an f-string writes for a value: \<^verbatim>\<open>str(v)\<close>.\<close>

fun py_str :: "py_value \<Rightarrow> string" where
  "py_str PyNone = ''None''"
| "py_str (PyStr s) = s"
| "py_str (PyList xs) = ''['' @ join '', '' (map py_repr xs) @ '']''"

text \<open>\<^verbatim>\<open>_get_action_name\<close>: the option strings of the action, joined by a slash.\<close>

definition get_action_name :: "action \<Rightarrow> string" where
  "get_action_name a = join ''/'' (option_strings a)"

fun error_message :: "argparse_error \<Rightarrow> string" where
  "error_message (AmbiguousOption option matches) =
     ''ambiguous option: '' @ option @ '' could match '' @ join '', '' matches"
| "error_message (UnexpectedOptionString s) = ''unexpected option string: '' @ s"
| "error_message (ExpectedOneArgument a) =
     ''argument '' @ get_action_name a @ '': expected one argument''"
| "error_message (IgnoredExplicitArgument a explicit_arg) =
     ''argument '' @ get_action_name a @ '': ignored explicit argument '' @ py_repr explicit_arg"
| "error_message (UnrecognizedArguments argv) =
     ''unrecognized arguments: '' @ join '' '' argv"

text \<open>
  The parser's \<^verbatim>\<open>HelpFormatter\<close> renders the usage line and the help text from the
  program name (the base name of \<^verbatim>\<open>sys.argv[0]\<close>) and the width of the terminal. Its
  three results are parameters of the model.
\<close>

record formatter =
  prog :: string
  format_usage :: string
  format_help :: string

text \<open>What the formatter renders for \<^verbatim>\<open>run_tests.py\<close> on a terminal of 80 columns.\<close>

definition formatter80 :: formatter where
  "formatter80 =
     \<lparr>prog = ''run_tests.py'',
      format_usage =
        ''usage: run_tests.py [-h] [--verbose VERBOSE] [--filter FILTER]'' @ [newline],
      format_help =
        concat (map (\<lambda>l. l @ [newline])
          [''usage: run_tests.py [-h] [--verbose VERBOSE] [--filter FILTER]'',
           [],
           ''Run tests'',
           [],
           ''options:'',
           ''  -h, --help         show this help message and exit'',
           ''  --verbose VERBOSE  Enable verbose output'',
           ''  --filter FILTER    Filter tests by pattern''])\<rparr>"

text \<open>
  How a \<^verbatim>\<open>SystemExit\<close> of the parser ends the process: \<^verbatim>\<open>print_help\<close> writes to
  standard output and \<^verbatim>\<open>exit()\<close> gives status 0; \<^verbatim>\<open>error\<close> writes the usage and the
  message to standard error and gives status 2.
\<close>

fun parser_exit :: "formatter \<Rightarrow> system_exit \<Rightarrow> world \<Rightarrow> world \<times> int" where
  "parser_exit fmt HelpExit w = (w\<lparr>stdout := stdout w @ format_help fmt\<rparr>, 0)"
| "parser_exit fmt (ErrorExit e) w =
     (w\<lparr>stderr := stderr w @ format_usage fmt @
                      prog fmt @ '': error: '' @ error_message e @ [newline]\<rparr>, 2)"

section \<open>run\_tests.py\<close>

text \<open>
  \<^verbatim>\<open>args = parser.parse_args()\<close>
  \<^verbatim>\<open>print(f"Running tests: verbose={args.verbose}, filter={args.filter}")\<close>
\<close>

definition run_tests :: "formatter \<Rightarrow> string list \<Rightarrow> world \<Rightarrow> world \<times> int" where
  "run_tests fmt sys_argv w =
     (case parse_args (drop 1 sys_argv) of
        Inl x \<Rightarrow> parser_exit fmt x w
      | Inr args \<Rightarrow>
          (print (''Running tests: verbose='' @ py_str (verbose args) @
                  '', filter='' @ py_str (filter_attr args)) w, 0))"

text \<open>An environment in which nothing has been written yet and no file exists.\<close>

definition world0 :: world where
  "world0 = \<lparr>stdout = [], stderr = [], files = Map.empty\<rparr>"

section \<open>Predicates of the statements\<close>

text \<open>
  An argument string selects an action when \<^verbatim>\<open>_parse_optional\<close> reads it as an option
  string of that action: the option itself, an abbreviation of it, or either with
  \<^verbatim>\<open>=value\<close> attached.
\<close>

definition selects :: "action \<Rightarrow> string \<Rightarrow> bool" where
  "selects a arg_string =
     (case parse_optional arg_string of
        Inr (Some (Some a', t)) \<Rightarrow> a' = a
      | _ \<Rightarrow> False)"

text \<open>The action of a pattern part, when it is an option the parser knows.\<close>

fun part_action :: "pattern_part \<Rightarrow> action option" where
  "part_action (PatO (a, t)) = a"
| "part_action p = None"


section \<open>Evaluating the parser\<close>

lemma parse_args_Nil: "parse_args [] = Inr \<lparr>verbose = PyNone, filter_attr = PyNone\<rparr>"
  by (simp add: parse_args_def parse_known_args_def)

lemma parse_args_None_None:
  "parse_args [''--verbose'', ''None'', ''--filter'', ''None''] =
     Inr \<lparr>verbose = PyStr ''None'', filter_attr = PyStr ''None''\<rparr>"
  by code_simp

section \<open>deploy.py and build\_project.py\<close>

text \<open>
  Claim C1. Every run of \<^verbatim>\<open>deploy.py\<close> prints the line \<^verbatim>\<open>Deploying to E\<close>, where
  \<^verbatim>\<open>E\<close> is the first argument, unchanged, when there is one and \<^verbatim>\<open>staging\<close> when there
  is none. Nothing else of the environment changes and the exit status is 0.
\<close>

theorem deploy_prints_target:
  "deploy (script # args) w =
     (w\<lparr>stdout := stdout w @ ''Deploying to '' @ (if args = [] then ''staging'' else hd args)
                     @ [newline]\<rparr>, 0)"
  by (cases args) (simp_all add: deploy_def print_def)

text \<open>The two scenarios of the specification: no argument, and the argument \<^verbatim>\<open>prod\<close>.\<close>

theorem deploy_prints_target_witness:
  "stdout (fst (deploy [''deploy.py''] world0)) = ''Deploying to staging'' @ [newline] \<and>
   stdout (fst (deploy [''deploy.py'', ''prod''] world0)) = ''Deploying to prod'' @ [newline]"
  using deploy_prints_target [of "''deploy.py''" "[]" world0]
        deploy_prints_target [of "''deploy.py''" "[''prod'']" world0]
  by (simp add: world0_def)

text \<open>
  Claim C2. Every run of \<^verbatim>\<open>build_project.py\<close> prints the line
  \<^verbatim>\<open>Building with config=C, output=O\<close>, where \<^verbatim>\<open>C\<close> is the first argument when there is
  one and \<^verbatim>\<open>debug\<close> otherwise, and \<^verbatim>\<open>O\<close> is the second argument when there is one and
  \<^verbatim>\<open>dist\<close> otherwise.
\<close>

theorem build_project_prints_config_output:
  "build_project (script # args) w =
     (w\<lparr>stdout := stdout w @ ''Building with config='' @
                     (if length args > 0 then args ! 0 else ''debug'') @ '', output='' @
                     (if length args > 1 then args ! 1 else ''dist'') @ [newline]\<rparr>, 0)"
  by (simp add: build_project_def print_def Let_def)

text \<open>The two scenarios of the specification: no argument, and \<^verbatim>\<open>release out/\<close>.\<close>

theorem build_project_prints_config_output_witness:
  "stdout (fst (build_project [''build_project.py''] world0)) =
     ''Building with config=debug, output=dist'' @ [newline] \<and>
   stdout (fst (build_project [''build_project.py'', ''release'', ''out/''] world0)) =
     ''Building with config=release, output=out/'' @ [newline]"
  using build_project_prints_config_output [of "''build_project.py''" "[]" world0]
        build_project_prints_config_output
          [of "''build_project.py''" "[''release'', ''out/'']" world0]
  by (simp add: world0_def)

text \<open>
  Claim C9. With exactly one argument \<^verbatim>\<open>C\<close>, \<^verbatim>\<open>build_project.py\<close> prints
  \<^verbatim>\<open>Building with config=C, output=dist\<close>: the default of the second argument applies
  although the first argument is given.
\<close>

theorem build_project_one_argument:
  "build_project [script, C] w =
     (w\<lparr>stdout := stdout w @ ''Building with config='' @ C @ '', output=dist'' @ [newline]\<rparr>, 0)"
  by (simp add: build_project_def print_def)

text \<open>
  Claim C8. \<^verbatim>\<open>deploy.py\<close> ignores every argument after the first and
  \<^verbatim>\<open>build_project.py\<close> every argument after the second: two argument lists that agree
  on the first argument (on the first two) give the same run, and the exit status is 0
  whatever the arguments are.
\<close>

theorem extra_arguments_ignored:
  "(take 1 args = take 1 args' \<longrightarrow>
      deploy (script # args) w = deploy (script' # args') w) \<and>
   (take 2 args = take 2 args' \<longrightarrow>
      build_project (script # args) w = build_project (script' # args') w) \<and>
   snd (deploy (script # args) w) = 0 \<and> snd (build_project (script # args) w) = 0"
proof (intro conjI impI)
  assume "take 1 args = take 1 args'"
  then show "deploy (script # args) w = deploy (script' # args') w"
    by (cases args; cases args') (simp_all add: deploy_def)
next
  assume "take 2 args = take 2 args'"
  then show "build_project (script # args) w = build_project (script' # args') w"
    by (cases args; cases args'; cases "tl args"; cases "tl args'")
       (auto simp: build_project_def)
qed (simp_all add: deploy_def build_project_def Let_def)

theorem extra_arguments_ignored_witness:
  "deploy [''deploy.py'', ''prod''] world0 =
     deploy [''deploy.py'', ''prod'', ''x'', ''y''] world0 \<and>
   build_project [''build_project.py'', ''release'', ''out/''] world0 =
     build_project [''build_project.py'', ''release'', ''out/'', ''x''] world0 \<and>
   snd (deploy [''deploy.py'', ''prod'', ''x'', ''y''] world0) = 0 \<and>
   snd (build_project [''build_project.py'', ''release'', ''out/'', ''x''] world0) = 0"
  using extra_arguments_ignored
          [of "[''prod'']" "[''prod'', ''x'', ''y'']" "''deploy.py''" world0 "''deploy.py''"]
        extra_arguments_ignored
          [of "[''release'', ''out/'']" "[''release'', ''out/'', ''x'']"
              "''build_project.py''" world0 "''build_project.py''"]
        extra_arguments_ignored
          [of "[''prod'', ''x'', ''y'']" "[]" "''deploy.py''" world0 "''deploy.py''"]
        extra_arguments_ignored
          [of "[''release'', ''out/'', ''x'']" "[]" "''build_project.py''" world0
              "''build_project.py''"]
  by simp

section \<open>run\_tests.py: what the output tells about the arguments\<close>

text \<open>
  Claim C10. The output of \<^verbatim>\<open>run_tests.py\<close> does not determine its arguments: an
  absent flag is printed as \<^verbatim>\<open>None\<close>, so the empty argument list and the list
  \<^verbatim>\<open>--verbose None --filter None\<close> both print
  \<^verbatim>\<open>Running tests: verbose=None, filter=None\<close>.
\<close>

theorem run_tests_not_injective:
  "[script] \<noteq> [script, ''--verbose'', ''None'', ''--filter'', ''None''] \<and>
   run_tests fmt [script] w =
     (w\<lparr>stdout := stdout w @ ''Running tests: verbose=None, filter=None'' @ [newline]\<rparr>, 0) \<and>
   run_tests fmt [script, ''--verbose'', ''None'', ''--filter'', ''None''] w =
     (w\<lparr>stdout := stdout w @ ''Running tests: verbose=None, filter=None'' @ [newline]\<rparr>, 0)"
  by (simp add: run_tests_def print_def parse_args_Nil parse_args_None_None)

section \<open>Properties of the parser\<close>

text \<open>Option strings of two characters: only \<^verbatim>\<open>-h\<close>.\<close>

lemma short_option_is_help:
  "map_of option_string_actions [a, b] = Some x \<Longrightarrow> x = HelpAction"
  by (simp add: option_string_actions_def split: if_splits)

text \<open>
  An action that is neither the option's own nor the help action is never taken: the loop
  of \<^verbatim>\<open>consume_optional\<close> only adds the help action to the action of the option.
\<close>

lemma loop_actions:
  "consume_optional_loop action os sep e following tuples = Inr (tuples', ex, n) \<Longrightarrow>
   action \<noteq> A \<Longrightarrow> A \<noteq> HelpAction \<Longrightarrow> list_all (\<lambda>t. fst t \<noteq> A) tuples \<Longrightarrow>
   list_all (\<lambda>t. fst t \<noteq> A) tuples'"
proof (induction action os sep e following tuples rule: consume_optional_loop.induct)
  case (1 action option_string sep following action_tuples)
  then show ?case
    by (auto split: sum.splits)
next
  case (2 action option_string sep explicit_arg following action_tuples)
  from "2.prems"(1) obtain arg_count where
    m: "match_argument action [PatA] = Inr arg_count"
    by (auto split: sum.splits)
  show ?case
  proof (cases "arg_count = 0 \<and> option_string ! 1 \<noteq> CHR ''-'' \<and> explicit_arg \<noteq> []")
    case False
    with "2.prems" m show ?thesis
      by (auto split: if_splits)
  next
    case True
    note c1 = this
    show ?thesis
    proof (cases "(sep \<noteq> None \<and> sep \<noteq> Some []) \<or> hd explicit_arg = CHR ''-''")
      case True
      with "2.prems"(1) m c1 show ?thesis by simp
    next
      case False
      note c2 = this
      show ?thesis
      proof (cases "map_of option_string_actions [hd option_string, hd explicit_arg]")
        case None
        with "2.prems" m c1 c2 show ?thesis by auto
      next
        case (Some next_action)
        then have na: "next_action = HelpAction" by (rule short_option_is_help)
        have acc: "list_all (\<lambda>t. fst t \<noteq> A) (action_tuples @ [(action, [], option_string)])"
          using "2.prems" by simp
        have nA: "next_action \<noteq> A" using na "2.prems"(3) by simp
        consider (a) "tl explicit_arg = []"
          | (b) "tl explicit_arg \<noteq> []" "hd (tl explicit_arg) = CHR ''=''"
          | (c) "tl explicit_arg \<noteq> []" "hd (tl explicit_arg) \<noteq> CHR ''=''" by blast
        then show ?thesis
        proof cases
          case a
          have "consume_optional_loop action option_string sep (Some explicit_arg) following action_tuples =
            consume_optional_loop next_action [hd option_string, hd explicit_arg]
               None None following (action_tuples @ [(action, [], option_string)])"
            using m c1 c2 Some a
            by (subst consume_optional_loop.simps(2)) (auto simp del: consume_optional_loop.simps)
          with "2.prems"(1) have
            "consume_optional_loop next_action [hd option_string, hd explicit_arg]
               None None following (action_tuples @ [(action, [], option_string)]) = Inr (tuples', ex, n)"
            by (simp del: consume_optional_loop.simps)
          from "2.IH"(1)[OF m c1 c2 Some a this nA "2.prems"(3) acc] show ?thesis .
        next
          case b
          have "consume_optional_loop action option_string sep (Some explicit_arg) following action_tuples =
            consume_optional_loop next_action [hd option_string, hd explicit_arg]
               (Some ''='') (Some (tl (tl explicit_arg))) following
               (action_tuples @ [(action, [], option_string)])"
            using m c1 c2 Some b
            by (subst consume_optional_loop.simps(2)) (auto simp del: consume_optional_loop.simps)
          with "2.prems"(1) have
            "consume_optional_loop next_action [hd option_string, hd explicit_arg]
               (Some ''='') (Some (tl (tl explicit_arg))) following
               (action_tuples @ [(action, [], option_string)]) = Inr (tuples', ex, n)"
            by (simp del: consume_optional_loop.simps)
          from "2.IH"(2)[OF m c1 c2 Some b this nA "2.prems"(3) acc] show ?thesis .
        next
          case c
          have "consume_optional_loop action option_string sep (Some explicit_arg) following action_tuples =
            consume_optional_loop next_action [hd option_string, hd explicit_arg]
               (Some []) (Some (tl explicit_arg)) following
               (action_tuples @ [(action, [], option_string)])"
            using m c1 c2 Some c
            by (subst consume_optional_loop.simps(2)) (auto simp del: consume_optional_loop.simps)
          with "2.prems"(1) have
            "consume_optional_loop next_action [hd option_string, hd explicit_arg]
               (Some []) (Some (tl explicit_arg)) following
               (action_tuples @ [(action, [], option_string)]) = Inr (tuples', ex, n)"
            by (simp del: consume_optional_loop.simps)
          from "2.IH"(3)[OF m c1 c2 Some c this nA "2.prems"(3) acc] show ?thesis .
        qed
      qed
    qed
  qed
qed


lemma take_actions_frame:
  "take_actions tuples ns = Inr ns' \<Longrightarrow> list_all (\<lambda>t. fst t \<noteq> A) tuples \<Longrightarrow>
   (A = StoreVerbose \<longrightarrow> verbose ns' = verbose ns) \<and>
   (A = StoreFilter \<longrightarrow> filter_attr ns' = filter_attr ns)"
proof (induction tuples arbitrary: ns)
  case Nil
  then show ?case by simp
next
  case (Cons t ts)
  obtain a xs os where t: "t = (a, xs, os)" by (cases t)
  from Cons.prems(1) obtain ns1 where
    1: "take_action t ns = Inr ns1" and 2: "take_actions ts ns1 = Inr ns'"
    by (auto split: sum.splits)
  from Cons.prems(2) have ts: "list_all (\<lambda>t. fst t \<noteq> A) ts" and aA: "a \<noteq> A"
    by (simp_all add: t)
  from Cons.IH[OF 2 ts] have IH:
    "(A = StoreVerbose \<longrightarrow> verbose ns' = verbose ns1) \<and>
     (A = StoreFilter \<longrightarrow> filter_attr ns' = filter_attr ns1)" .
  from 1 aA have
    "(A = StoreVerbose \<longrightarrow> verbose ns1 = verbose ns) \<and>
     (A = StoreFilter \<longrightarrow> filter_attr ns1 = filter_attr ns)"
    by (cases a) (auto simp: t)
  with IH show ?case by simp
qed

lemma consume_frame:
  "consume xs ns extras = Inr (ns', extras') \<Longrightarrow> A \<noteq> HelpAction \<Longrightarrow>
   list_all (\<lambda>x. part_action (snd x) \<noteq> Some A) xs \<Longrightarrow>
   (A = StoreVerbose \<longrightarrow> verbose ns' = verbose ns) \<and>
   (A = StoreFilter \<longrightarrow> filter_attr ns' = filter_attr ns)"
proof (induction xs ns extras rule: consume.induct)
  case (1 ns extras)
  then show ?case by simp
next
  case (2 s rest ns extras)
  then show ?case by simp
next
  case (3 s rest ns extras)
  then show ?case by simp
next
  case (4 s option_string sep explicit_arg rest ns extras)
  then show ?case by simp
next
  case (5 s action option_string sep explicit_arg rest ns extras)
  from "5.prems"(1) obtain action_tuples new_extras arg_count ns1 where
    loop: "consume_optional_loop action option_string sep explicit_arg rest [] =
             Inr (action_tuples, new_extras, arg_count)" and
    acts: "take_actions action_tuples ns = Inr ns1" and
    rest: "consume (drop arg_count rest) ns1 (extras @ new_extras) = Inr (ns', extras')"
    by (auto simp del: consume_optional_loop.simps split: sum.splits prod.splits)
  from "5.prems"(3) have aA: "action \<noteq> A" and
    all: "list_all (\<lambda>x. part_action (snd x) \<noteq> Some A) rest" by simp_all
  from all have d: "list_all (\<lambda>x. part_action (snd x) \<noteq> Some A) (drop arg_count rest)"
    unfolding list_all_iff using set_drop_subset[of arg_count rest] by blast
  have IH: "(A = StoreVerbose \<longrightarrow> verbose ns' = verbose ns1) \<and>
            (A = StoreFilter \<longrightarrow> filter_attr ns' = filter_attr ns1)"
    using "5.IH" loop acts rest "5.prems"(2) d by blast
  from loop_actions[OF loop aA "5.prems"(2)] have "list_all (\<lambda>t. fst t \<noteq> A) action_tuples"
    by simp
  from take_actions_frame[OF acts this] IH show ?case by simp
qed

lemma pattern_parts_selects:
  "arg_string_pattern_parts args = Inr parts \<Longrightarrow> list_all (\<lambda>s. \<not> selects A s) args \<Longrightarrow>
   list_all (\<lambda>x. part_action (snd x) \<noteq> Some A) (zip args parts)"
proof (induction args arbitrary: parts)
  case Nil
  then show ?case by simp
next
  case (Cons a args)
  show ?case
  proof (cases "a = ''--''")
    case True
    with Cons.prems(1) have parts: "parts = PatDash # map (\<lambda>_. PatA) args" by auto
    have "list_all (\<lambda>x. part_action (snd x) \<noteq> Some A) (zip args (map (\<lambda>_. PatA) args))"
      by (auto simp: list_all_iff zip_map2)
    then show ?thesis by (simp add: parts)
  next
    case False
    with Cons.prems(1) obtain t ps where t: "parse_optional a = Inr t"
      and ps: "arg_string_pattern_parts args = Inr ps"
      and parts: "parts = (case t of None \<Rightarrow> PatA | Some t \<Rightarrow> PatO t) # ps"
      by (auto split: sum.splits)
    from Cons.prems(2) have na: "\<not> selects A a" and as: "list_all (\<lambda>s. \<not> selects A s) args"
      by simp_all
    from Cons.IH[OF ps as] have "list_all (\<lambda>x. part_action (snd x) \<noteq> Some A) (zip args ps)" .
    moreover from na t have "part_action (case t of None \<Rightarrow> PatA | Some t \<Rightarrow> PatO t) \<noteq> Some A"
      by (auto simp: selects_def split: option.splits)
    ultimately show ?thesis by (simp add: parts)
  qed
qed

lemma parse_args_absent:
  assumes "parse_args args = Inr ns" and "A \<noteq> HelpAction"
    and "list_all (\<lambda>s. \<not> selects A s) args"
  shows "(A = StoreVerbose \<longrightarrow> verbose ns = PyNone) \<and>
         (A = StoreFilter \<longrightarrow> filter_attr ns = PyNone)"
proof -
  from assms(1) obtain parts extras where
    parts: "arg_string_pattern_parts args = Inr parts" and
    cons: "consume (zip args parts) \<lparr>verbose = PyNone, filter_attr = PyNone\<rparr> [] = Inr (ns, extras)"
    by (auto simp: parse_args_def parse_known_args_def split: sum.splits prod.splits if_splits)
  from consume_frame[OF cons assms(2) pattern_parts_selects[OF parts assms(3)]]
  show ?thesis by simp
qed










lemma parse_args_filter_only:
  "parse_args [''--filter'', ''foo''] = Inr \<lparr>verbose = PyNone, filter_attr = PyStr ''foo''\<rparr>"
  by code_simp

lemma parse_args_verbose_only:
  "parse_args [''--verbose'', ''true''] = Inr \<lparr>verbose = PyStr ''true'', filter_attr = PyNone\<rparr>"
  by code_simp

lemma not_selects_examples:
  "list_all (\<lambda>s. \<not> selects StoreVerbose s) [''--filter'', ''foo'']"
  "list_all (\<lambda>s. \<not> selects StoreFilter s) [''--verbose'', ''true'']"
  by code_simp+

section \<open>run\_tests.py: the flags\<close>




text \<open>
  Claim C5. When the parser accepts the arguments and none of them selects
  \<^verbatim>\<open>--verbose\<close> (respectively \<^verbatim>\<open>--filter\<close>), no default is put in its place: the
  attribute is \<^verbatim>\<open>None\<close> and the printed line shows \<^verbatim>\<open>None\<close> at the position of that
  flag.
\<close>

theorem absent_flag_prints_None:
  "parse_args args = Inr ns \<Longrightarrow>
   (list_all (\<lambda>s. \<not> selects StoreVerbose s) args \<longrightarrow>
      run_tests fmt (script # args) w =
        (w\<lparr>stdout := stdout w @ ''Running tests: verbose=None, filter='' @
                        py_str (filter_attr ns) @ [newline]\<rparr>, 0)) \<and>
   (list_all (\<lambda>s. \<not> selects StoreFilter s) args \<longrightarrow>
      run_tests fmt (script # args) w =
        (w\<lparr>stdout := stdout w @ ''Running tests: verbose='' @ py_str (verbose ns) @
                        '', filter=None'' @ [newline]\<rparr>, 0))"
  using parse_args_absent[of args ns StoreVerbose] parse_args_absent[of args ns StoreFilter]
  by (simp add: run_tests_def print_def)

theorem absent_flag_prints_None_witness:
  "parse_args [''--filter'', ''foo''] = Inr \<lparr>verbose = PyNone, filter_attr = PyStr ''foo''\<rparr> \<and>
   list_all (\<lambda>s. \<not> selects StoreVerbose s) [''--filter'', ''foo''] \<and>
   stdout (fst (run_tests formatter80 [''run_tests.py'', ''--filter'', ''foo''] world0)) =
     ''Running tests: verbose=None, filter=foo'' @ [newline] \<and>
   parse_args [''--verbose'', ''true''] = Inr \<lparr>verbose = PyStr ''true'', filter_attr = PyNone\<rparr> \<and>
   list_all (\<lambda>s. \<not> selects StoreFilter s) [''--verbose'', ''true''] \<and>
   stdout (fst (run_tests formatter80 [''run_tests.py'', ''--verbose'', ''true''] world0)) =
     ''Running tests: verbose=true, filter=None'' @ [newline]"
  using absent_flag_prints_None [OF parse_args_filter_only, of formatter80 "''run_tests.py''" world0]
        absent_flag_prints_None [OF parse_args_verbose_only, of formatter80 "''run_tests.py''" world0]
        not_selects_examples parse_args_filter_only parse_args_verbose_only
  by (simp add: world0_def)

section \<open>Exit status, output and effects of the three scripts\<close>







end
